theory Spec2Isabelle
  imports Main "HOL-Library.Sublist"
begin

section \<open>Data model\<close>

text \<open>
  The alert dialog of \<^verbatim>\<open>packages/react/alert-dialog/src/AlertDialog.tsx\<close> is a set of
  React components. A component is modelled as the function from its inputs (props,
  children, forwarded ref, the context values it reads) to the element tree it returns.

  An event handler is modelled by its effect, when it returns, on the part of the page
  the alert dialog touches: the \<open>defaultPrevented\<close> flag of the (cancelable) pre-autofocus
  event being dispatched, the contents of the ref cells created by \<open>React.useRef\<close>, and the
  log of \<open>element.focus(options)\<close> calls, each with its \<open>preventScroll\<close> option.
\<close>

type_synonym handle = nat

record world =
  defaultPrevented :: bool
  refCurrent :: "nat \<Rightarrow> handle option"
  focusCalls :: "(handle \<times> bool) list"

text \<open>JavaScript values that occur as props.\<close>

datatype jsval =
    Undefined
  | Null
  | Bool bool
  | Str string
  | Fn "world \<Rightarrow> world"
  | RefObj nat

type_synonym props = "string \<rightharpoonup> jsval"

text \<open>
  An element tree. \<open>Falsy\<close> is the value \<open>false\<close> that \<open>cond && <X />\<close> leaves among the
  children when \<open>cond\<close> is false; React renders nothing for it.
\<close>

datatype node =
    Element string props "node list"
  | Falsy

text \<open>JavaScript truthiness, \<open>a || b\<close>, and reading a property of an object.\<close>

fun truthy :: "jsval \<Rightarrow> bool" where
  "truthy Undefined = False"
| "truthy Null = False"
| "truthy (Bool b) = b"
| "truthy (Str s) = (s \<noteq> [])"
| "truthy (Fn h) = True"
| "truthy (RefObj r) = True"

definition js_or :: "jsval \<Rightarrow> jsval \<Rightarrow> jsval" where
  "js_or a b = (if truthy a then a else b)"

definition getProp :: "props \<Rightarrow> string \<Rightarrow> jsval" where
  "getProp p k = (case p k of None \<Rightarrow> Undefined | Some v \<Rightarrow> v)"

text \<open>The value of an attribute (prop) of a rendered element.\<close>

fun attr :: "node \<Rightarrow> string \<Rightarrow> jsval" where
  "attr (Element name p children) k = getProp p k"
| "attr Falsy k = Undefined"

text \<open>Whether a component of the given name occurs in an element tree.\<close>

fun mounts :: "string \<Rightarrow> node \<Rightarrow> bool" where
  "mounts c (Element name p children) = (name = c \<or> list_ex (mounts c) children)"
| "mounts c Falsy = False"

text \<open>The children of a rendered element.\<close>

fun childrenOf :: "node \<Rightarrow> node list" where
  "childrenOf (Element name p children) = children"
| "childrenOf Falsy = []"

section \<open>AlertDialog\<close>

definition ROOT_NAME :: string where
  "ROOT_NAME = ''AlertDialog''"

record AlertDialogContextValue =
  descriptionId :: string
  titleId :: string

text \<open>
  Modelled from the spec: the text of a new identifier of the unique-id utility below,
  which is not among the sources. The spec only asks that identifiers be non-empty and
  unique; here the current value of a counter is written in decimal.
\<close>

fun decimal :: "nat \<Rightarrow> string" where
  "decimal n =
     (if n < 10 then [char_of (48 + n)]
      else decimal (n div 10) @ [char_of (48 + n mod 10)])"

text \<open>
  Modelled from the spec: \<open>useId\<close> of \<^verbatim>\<open>@radix-ui/react-id\<close>, which is not among the
  sources. The spec asks for a stable per-mount unique-id mechanism: the identifier is
  generated when the component mounts, is not empty, differs from every identifier
  generated before, and remains constant across re-renders of the same mounted instance.
  Here the hook keeps its identifier in a cell of the component instance (\<open>None\<close> until the
  instance has mounted), and a new identifier is made from a counter shared by all
  instances.
\<close>

definition useId :: "string option \<Rightarrow> nat \<Rightarrow> string \<times> string option \<times> nat" where
  "useId cell count =
     (case cell of
        Some i \<Rightarrow> (i, cell, count)
      | None \<Rightarrow> (let i = ''radix-id-'' @ decimal (Suc count) in (i, Some i, Suc count)))"

text \<open>
  \<open>AlertDialog\<close>, lines 27 to 31. The two hook cells of the instance and the counter are
  passed in and returned; \<open>descriptionId={useId()}\<close> is evaluated before
  \<open>titleId={useId()}\<close>.
\<close>

definition AlertDialog ::
  "string option \<times> string option \<Rightarrow> nat \<Rightarrow> props \<Rightarrow> node list
     \<Rightarrow> node \<times> (string option \<times> string option) \<times> nat" where
  "AlertDialog hooks count p children =
     (case useId (fst hooks) count of (dId, cell1, count1) \<Rightarrow>
      case useId (snd hooks) count1 of (tId, cell2, count2) \<Rightarrow>
        (Element ''AlertDialogProvider''
           [''descriptionId'' \<mapsto> Str dId, ''titleId'' \<mapsto> Str tId]
           [Element ''DialogPrimitive.Root'' p children],
         (cell1, cell2), count2))"

section \<open>AlertDialogContent\<close>

definition CONTENT_NAME :: string where
  "CONTENT_NAME = ''AlertDialogContent''"

text \<open>
  Modelled from the spec: \<open>composeEventHandlers\<close> of \<^verbatim>\<open>@radix-ui/primitive\<close>, which is
  not among the sources. The spec gives it as \<open>compose(userHandler, defaultHandler)\<close>: it
  invokes the user handler first (if there is one), checks the prevented flag on the event
  object, and only then invokes the default handler if not prevented.
\<close>

definition composeEventHandlers :: "jsval \<Rightarrow> (world \<Rightarrow> world) \<Rightarrow> world \<Rightarrow> world" where
  "composeEventHandlers originalEventHandler ourEventHandler event =
     (let event1 = (case originalEventHandler of Fn h \<Rightarrow> h event | _ \<Rightarrow> event)
      in if defaultPrevented event1 then event1 else ourEventHandler event1)"

text \<open>\<open>event.preventDefault()\<close> and \<open>element.focus({ preventScroll })\<close>.\<close>

definition preventDefault :: "world \<Rightarrow> world" where
  "preventDefault w = w\<lparr>defaultPrevented := True\<rparr>"

definition focus :: "handle \<Rightarrow> bool \<Rightarrow> world \<Rightarrow> world" where
  "focus el preventScroll w = w\<lparr>focusCalls := focusCalls w @ [(el, preventScroll)]\<rparr>"

text \<open>
  The handler of lines 82 to 85:
  \<^verbatim>\<open>(event) => { event.preventDefault(); cancelRef.current?.focus({ preventScroll: true }); }\<close>
  The ref cell is read when the handler runs.
\<close>

definition focusCancel :: "nat \<Rightarrow> world \<Rightarrow> world" where
  "focusCancel cancelRef event =
     (let w = preventDefault event
      in case refCurrent w cancelRef of
           None \<Rightarrow> w
         | Some el \<Rightarrow> focus el True w)"

text \<open>
  \<open>AlertDialogContent\<close>, lines 60 to 105. \<open>node_env\<close> is \<open>process.env.NODE_ENV\<close>, \<open>context\<close>
  the value read by \<open>useAlertDialogContext\<close>, \<open>cancelRef\<close> the cell returned by
  \<open>React.useRef\<close>. The props object is destructured into the three aria props, the
  children and the rest; in the JSX a later attribute or spread overrides an earlier one.
\<close>

definition AlertDialogContent ::
  "string option \<Rightarrow> AlertDialogContextValue \<Rightarrow> nat \<Rightarrow> props \<Rightarrow> node list \<Rightarrow> jsval \<Rightarrow> node" where
  "AlertDialogContent node_env context cancelRef p children forwardedRef =
     (let ariaLabel = getProp p ''aria-label'';
          ariaLabelledBy = getProp p ''aria-labelledby'';
          ariaDescribedBy = getProp p ''aria-describedby'';
          dialogContentProps =
            p |` (- {''aria-label'', ''aria-labelledby'', ''aria-describedby'', ''children''})
      in Element ''DialogPrimitive.Content''
           (([''role'' \<mapsto> Str ''alertdialog'',
              ''aria-describedby'' \<mapsto> js_or ariaDescribedBy (Str (descriptionId context)),
              ''aria-labelledby'' \<mapsto>
                 (if truthy ariaLabel then Undefined
                  else js_or ariaLabelledBy (Str (titleId context))),
              ''aria-label'' \<mapsto> js_or ariaLabel Undefined]
             ++ dialogContentProps)
            (''ref'' \<mapsto> forwardedRef,
             ''onOpenAutoFocus'' \<mapsto>
                Fn (composeEventHandlers (getProp dialogContentProps ''onOpenAutoFocus'')
                      (focusCancel cancelRef))))
           [Element ''AlertDialogContentProvider'' [''cancelRef'' \<mapsto> RefObj cancelRef]
              [if node_env = Some ''development''
               then Element ''AccessibilityDevWarnings''
                      [''ariaLabel'' \<mapsto> ariaLabel,
                       ''ariaLabelledBy'' \<mapsto> ariaLabelledBy,
                       ''ariaDescribedBy'' \<mapsto> ariaDescribedBy] []
               else Falsy,
               Element ''Slottable'' Map.empty children]])"

text \<open>
  Modelled from the spec: the dialog primitive's content region, which is not among the
  sources. The spec has it fire its pre-autofocus hook exactly once per open transition,
  before moving focus; the hook is the \<open>onOpenAutoFocus\<close> prop of the content element, and
  the event it receives is fresh, its default not yet prevented.
\<close>

definition openAutoFocus :: "node \<Rightarrow> world \<Rightarrow> world" where
  "openAutoFocus content w =
     (let event = w\<lparr>defaultPrevented := False\<rparr>
      in case attr content ''onOpenAutoFocus'' of Fn h \<Rightarrow> h event | _ \<Rightarrow> event)"

section \<open>AlertDialogTitle and AlertDialogDescription\<close>

definition TITLE_NAME :: string where
  "TITLE_NAME = ''AlertDialogTitle''"

definition TITLE_DEFAULT_TAG :: string where
  "TITLE_DEFAULT_TAG = ''h2''"

text \<open>
  Lines 127 to 131. The default of \<open>as\<close> applies when the prop is absent or \<open>undefined\<close>;
  the children are among the props passed through.
\<close>

definition AlertDialogTitle :: "AlertDialogContextValue \<Rightarrow> props \<Rightarrow> node list \<Rightarrow> jsval \<Rightarrow> node" where
  "AlertDialogTitle context p children forwardedRef =
     (let as = (case getProp p ''as'' of Undefined \<Rightarrow> Str TITLE_DEFAULT_TAG | v \<Rightarrow> v);
          titleProps = p |` (- {''as''})
      in Element ''Primitive''
           (([''id'' \<mapsto> Str (titleId context)] ++ titleProps)
            (''as'' \<mapsto> as, ''ref'' \<mapsto> forwardedRef))
           children)"

definition DESCRIPTION_NAME :: string where
  "DESCRIPTION_NAME = ''AlertDialogDescription''"

definition DESCRIPTION_DEFAULT_TAG :: string where
  "DESCRIPTION_DEFAULT_TAG = ''p''"

text \<open>Lines 148 to 152.\<close>

definition AlertDialogDescription :: "AlertDialogContextValue \<Rightarrow> props \<Rightarrow> node list \<Rightarrow> jsval \<Rightarrow> node" where
  "AlertDialogDescription context p children forwardedRef =
     (let as = (case getProp p ''as'' of Undefined \<Rightarrow> Str DESCRIPTION_DEFAULT_TAG | v \<Rightarrow> v);
          descriptionProps = p |` (- {''as''})
      in Element ''Primitive''
           (([''id'' \<mapsto> Str (descriptionId context)] ++ descriptionProps)
            (''as'' \<mapsto> as, ''ref'' \<mapsto> forwardedRef))
           children)"

section \<open>AccessibilityDevWarnings\<close>

definition nl :: string where
  "nl = [CHR 0x0A]"

text \<open>The two template literals of lines 191 to 205.\<close>

definition LABEL_WARNING :: string where
  "LABEL_WARNING =
     CONTENT_NAME @ '' requires a label for the component to be accessible for screen reader users.''
     @ nl @ nl
     @ ''You can label the '' @ CONTENT_NAME @ '' by passing a '' @ TITLE_NAME
     @ '' component as a child, which also benefits sighted users by adding visible context to the dialog.''
     @ nl @ nl
     @ ''Alternatively, you can use your own component as a title by assigning it an `id` and passing the same value to the `aria-labelledby` prop in ''
     @ CONTENT_NAME
     @ ''. If the label is confusing or duplicative for sighted users, you can also pass a label directly by using the `aria-label` prop.''
     @ nl @ nl
     @ ''For more information, see https://LINK-TO-DOCS.com''"

definition DESC_WARNING :: string where
  "DESC_WARNING =
     CONTENT_NAME @ '' requires a description for the component to be accessible for screen reader users.''
     @ nl @ nl
     @ ''You can add a description to the '' @ CONTENT_NAME @ '' by passing a '' @ DESCRIPTION_NAME
     @ '' component as a child, which also benefits sighted users by adding visible context to the dialog.''
     @ nl @ nl
     @ ''Alternatively, you can use your own component as a description by assigning it an `id` and passing the same value to the `aria-describedby` prop in ''
     @ CONTENT_NAME
     @ ''. If the description is confusing or duplicative for sighted users, you can use the `@radix-ui/react-visually-hidden` primitive as a wrapper around your description component.''
     @ nl @ nl
     @ ''For more information, see https://LINK-TO-DOCS.com''"

text \<open>
  The document, as far as \<open>document.getElementById\<close> reads it: the rendered elements that
  carry an id, in document order. No element has the empty string as its id.
\<close>

type_synonym document = "(string \<times> handle) list"

definition getElementById :: "document \<Rightarrow> string \<Rightarrow> handle option" where
  "getElementById doc i = (if i = [] then None else map_of doc i)"

text \<open>
  Truthiness of a prop \<open>x\<close> of type \<open>string | undefined\<close> (\<open>None\<close> being \<open>undefined\<close>), and
  \<open>Boolean(x && document.getElementById(x))\<close>.
\<close>

fun truthyStr :: "string option \<Rightarrow> bool" where
  "truthyStr None = False"
| "truthyStr (Some x) = (x \<noteq> [])"

fun andGetElementById :: "document \<Rightarrow> string option \<Rightarrow> bool" where
  "andGetElementById doc None = False"
| "andGetElementById doc (Some x) = (x \<noteq> [] \<and> getElementById doc x \<noteq> None)"

text \<open>
  The effect of lines 221 to 238, run on mount and when one of its inputs changes. The
  props have the declared type \<open>string | undefined\<close>. The result is the list of the
  \<open>console.warn\<close> calls the effect makes, in order; the effect has no other outcome.
\<close>

definition AccessibilityDevWarnings ::
  "string option \<Rightarrow> string option \<Rightarrow> string option \<Rightarrow> AlertDialogContextValue \<Rightarrow> document \<Rightarrow> string list" where
  "AccessibilityDevWarnings ariaLabel ariaLabelledBy ariaDescribedBy context doc =
     (let hasLabel =
            (truthyStr ariaLabel
             \<or> andGetElementById doc ariaLabelledBy
             \<or> andGetElementById doc (Some (titleId context)));
          warned1 = (if \<not> hasLabel then [LABEL_WARNING] else []);
          hasDescription =
            (andGetElementById doc ariaDescribedBy
             \<or> andGetElementById doc (Some (descriptionId context)));
          warned2 = (if \<not> hasDescription then warned1 @ [DESC_WARNING] else warned1)
      in warned2)"

text \<open>Whether a warning text contains a word (as a contiguous substring).\<close>

fun mentions :: "string \<Rightarrow> string \<Rightarrow> bool" where
  "mentions word [] = (word = [])"
| "mentions word (c # cs) = (prefix word (c # cs) \<or> mentions word cs)"

section \<open>The formulas of the specification\<close>

text \<open>
  The specification's data model resolves the accessible-naming attributes with the
  nullish coalescing operator \<open>??\<close>: \<open>a ?? b\<close> is \<open>b\<close> when \<open>a\<close> is \<open>undefined\<close> or \<open>null\<close>, and \<open>a\<close>
  otherwise. These definitions follow the specification's words, for comparison with
  \<open>AlertDialogContent\<close>.
\<close>

definition js_nullish :: "jsval \<Rightarrow> bool" where
  "js_nullish v = (v = Undefined \<or> v = Null)"

definition js_coalesce :: "jsval \<Rightarrow> jsval \<Rightarrow> jsval" where
  "js_coalesce a b = (if js_nullish a then b else a)"

definition spec_effectiveLabelledBy :: "jsval \<Rightarrow> jsval \<Rightarrow> string \<Rightarrow> jsval" where
  "spec_effectiveLabelledBy ariaLabel ariaLabelledBy tId =
     (if truthy ariaLabel then Undefined else js_coalesce ariaLabelledBy (Str tId))"

definition spec_effectiveLabel :: "jsval \<Rightarrow> jsval" where
  "spec_effectiveLabel ariaLabel = js_coalesce ariaLabel Undefined"

definition spec_effectiveDescribedBy :: "jsval \<Rightarrow> string \<Rightarrow> jsval" where
  "spec_effectiveDescribedBy ariaDescribedBy dId = js_coalesce ariaDescribedBy (Str dId)"

text \<open>
  An input of \<open>AlertDialogContent\<close> that is absent or a string other than the empty one.
\<close>

fun absentOrNonEmpty :: "jsval \<Rightarrow> bool" where
  "absentOrNonEmpty Undefined = True"
| "absentOrNonEmpty (Str s) = (s \<noteq> [])"
| "absentOrNonEmpty v = False"

text \<open>
  An attribute is set on the rendered element when its value is neither \<open>undefined\<close> nor
  \<open>null\<close>: React leaves such attributes out.
\<close>

definition isSet :: "jsval \<Rightarrow> bool" where
  "isSet v = (\<not> js_nullish v)"

text \<open>
  The specification's notion for the dev warnings: an id (a prop of type
  \<open>string | undefined\<close>) resolves to a real rendered element.
\<close>

fun resolvesTo :: "document \<Rightarrow> string option \<Rightarrow> bool" where
  "resolvesTo doc None = False"
| "resolvesTo doc (Some i) = (getElementById doc i \<noteq> None)"

text \<open>Reading a decimal numeral back, to show that \<open>decimal\<close> loses nothing.\<close>

definition undecimal :: "string \<Rightarrow> nat" where
  "undecimal s = foldl (\<lambda>a c. 10 * a + (of_char c - 48)) 0 s"

section \<open>The attributes of the content element\<close>

lemmas content_simps = AlertDialogContent_def Let_def getProp_def map_add_def restrict_map_def

lemma content_aria_labelledby:
  "attr (AlertDialogContent env ctx cr p ch r) ''aria-labelledby'' =
     (if truthy (getProp p ''aria-label'') then Undefined
      else js_or (getProp p ''aria-labelledby'') (Str (titleId ctx)))"
  by (simp add: content_simps)

lemma content_aria_label:
  "attr (AlertDialogContent env ctx cr p ch r) ''aria-label'' =
     js_or (getProp p ''aria-label'') Undefined"
  by (simp add: content_simps)

lemma content_aria_describedby:
  "attr (AlertDialogContent env ctx cr p ch r) ''aria-describedby'' =
     js_or (getProp p ''aria-describedby'') (Str (descriptionId ctx))"
  by (simp add: content_simps)

lemma js_or_coalesce: "absentOrNonEmpty a \<Longrightarrow> js_or a b = js_coalesce a b"
  by (cases a) (simp_all add: js_or_def js_coalesce_def js_nullish_def)

text \<open>
  C1, as stated, fails. The claim has the attributes follow the formulas with \<open>??\<close>, so that
  an empty-string override is kept. The code uses \<open>||\<close>: with \<open>aria-labelledby=""\<close> and no
  \<open>aria-label\<close> the content element gets the generated title id, where the specification's
  formula gives the empty string.
\<close>

theorem C1_counterexample:
  "attr (AlertDialogContent (Some ''development'')
           \<lparr>descriptionId = ''radix-id-1'', titleId = ''radix-id-2''\<rparr> 0
           [''aria-labelledby'' \<mapsto> Str ''''] [] Null) ''aria-labelledby''
     = Str ''radix-id-2''
   \<and> spec_effectiveLabelledBy (getProp [''aria-labelledby'' \<mapsto> Str ''''] ''aria-label'')
         (getProp [''aria-labelledby'' \<mapsto> Str ''''] ''aria-labelledby'') ''radix-id-2''
     = Str ''''"
  by (simp add: content_aria_labelledby js_or_def getProp_def spec_effectiveLabelledBy_def
      js_coalesce_def js_nullish_def)

text \<open>
  C1, amended. For every render of \<open>AlertDialogContent\<close> the attributes of the content element
  are \<open>aria-labelledby = (ariaLabel ? undefined : (ariaLabelledBy || titleId))\<close>,
  \<open>aria-label = (ariaLabel || undefined)\<close> and
  \<open>aria-describedby = (ariaDescribedBy || descriptionId)\<close>, whatever the remaining props are.
  An empty-string override counts as absent: it is replaced by the generated id (by
  \<open>undefined\<close> for \<open>aria-label\<close>). When each of the three inputs is absent or a non-empty
  string, the attributes equal the specification's formulas with \<open>??\<close>.
\<close>

theorem C1_content_aria_attributes:
  "attr (AlertDialogContent env ctx cr p ch r) ''aria-labelledby'' =
     (if truthy (getProp p ''aria-label'') then Undefined
      else js_or (getProp p ''aria-labelledby'') (Str (titleId ctx)))
   \<and> attr (AlertDialogContent env ctx cr p ch r) ''aria-label'' =
       js_or (getProp p ''aria-label'') Undefined
   \<and> attr (AlertDialogContent env ctx cr p ch r) ''aria-describedby'' =
       js_or (getProp p ''aria-describedby'') (Str (descriptionId ctx))
   \<and> (getProp p ''aria-labelledby'' = Str [] \<longrightarrow> \<not> truthy (getProp p ''aria-label'') \<longrightarrow>
        attr (AlertDialogContent env ctx cr p ch r) ''aria-labelledby'' = Str (titleId ctx))
   \<and> (getProp p ''aria-label'' = Str [] \<longrightarrow>
        attr (AlertDialogContent env ctx cr p ch r) ''aria-label'' = Undefined)
   \<and> (getProp p ''aria-describedby'' = Str [] \<longrightarrow>
        attr (AlertDialogContent env ctx cr p ch r) ''aria-describedby'' = Str (descriptionId ctx))
   \<and> (absentOrNonEmpty (getProp p ''aria-label'')
        \<and> absentOrNonEmpty (getProp p ''aria-labelledby'')
        \<and> absentOrNonEmpty (getProp p ''aria-describedby'') \<longrightarrow>
        attr (AlertDialogContent env ctx cr p ch r) ''aria-labelledby'' =
          spec_effectiveLabelledBy (getProp p ''aria-label'') (getProp p ''aria-labelledby'')
            (titleId ctx)
        \<and> attr (AlertDialogContent env ctx cr p ch r) ''aria-label'' =
          spec_effectiveLabel (getProp p ''aria-label'')
        \<and> attr (AlertDialogContent env ctx cr p ch r) ''aria-describedby'' =
          spec_effectiveDescribedBy (getProp p ''aria-describedby'') (descriptionId ctx))"
proof -
  have agree: "attr (AlertDialogContent env ctx cr p ch r) ''aria-labelledby'' =
          spec_effectiveLabelledBy (getProp p ''aria-label'') (getProp p ''aria-labelledby'')
            (titleId ctx)
        \<and> attr (AlertDialogContent env ctx cr p ch r) ''aria-label'' =
          spec_effectiveLabel (getProp p ''aria-label'')
        \<and> attr (AlertDialogContent env ctx cr p ch r) ''aria-describedby'' =
          spec_effectiveDescribedBy (getProp p ''aria-describedby'') (descriptionId ctx)"
    if "absentOrNonEmpty (getProp p ''aria-label'')"
      and "absentOrNonEmpty (getProp p ''aria-labelledby'')"
      and "absentOrNonEmpty (getProp p ''aria-describedby'')"
    using that
    by (simp add: content_aria_labelledby content_aria_label content_aria_describedby
        js_or_coalesce spec_effectiveLabelledBy_def spec_effectiveLabel_def
        spec_effectiveDescribedBy_def)
  show ?thesis
    using agree
    by (simp add: content_aria_labelledby content_aria_label content_aria_describedby js_or_def)
qed

text \<open>
  Witness for C1: an explicit \<open>aria-labelledby="my-title"\<close> and nothing else.
\<close>

theorem C1_content_aria_attributes_witness:
  "absentOrNonEmpty (getProp [''aria-labelledby'' \<mapsto> Str ''my-title''] ''aria-label'')
   \<and> absentOrNonEmpty (getProp [''aria-labelledby'' \<mapsto> Str ''my-title''] ''aria-labelledby'')
   \<and> absentOrNonEmpty (getProp [''aria-labelledby'' \<mapsto> Str ''my-title''] ''aria-describedby'')
   \<and> attr (AlertDialogContent (Some ''development'')
           \<lparr>descriptionId = ''radix-id-1'', titleId = ''radix-id-2''\<rparr> 0
           [''aria-labelledby'' \<mapsto> Str ''my-title''] [] Null) ''aria-labelledby''
       = spec_effectiveLabelledBy Undefined (Str ''my-title'') ''radix-id-2''
   \<and> attr (AlertDialogContent (Some ''development'')
           \<lparr>descriptionId = ''radix-id-1'', titleId = ''radix-id-2''\<rparr> 0
           [''aria-labelledby'' \<mapsto> Str ''my-title''] [] Null) ''aria-describedby''
       = spec_effectiveDescribedBy Undefined ''radix-id-1''"
proof -
  let ?p = "[''aria-labelledby'' \<mapsto> Str ''my-title'']"
  have g: "getProp ?p ''aria-label'' = Undefined"
    "getProp ?p ''aria-labelledby'' = Str ''my-title''"
    "getProp ?p ''aria-describedby'' = Undefined"
    by (simp_all add: getProp_def)
  have h: "absentOrNonEmpty (getProp ?p ''aria-label'')
      \<and> absentOrNonEmpty (getProp ?p ''aria-labelledby'')
      \<and> absentOrNonEmpty (getProp ?p ''aria-describedby'')"
    by (simp add: g)
  from h C1_content_aria_attributes [of "Some ''development''"
      "\<lparr>descriptionId = ''radix-id-1'', titleId = ''radix-id-2''\<rparr>" 0 ?p "[]" Null]
  show ?thesis
    unfolding g
    by (simp add: js_or_def spec_effectiveLabelledBy_def spec_effectiveDescribedBy_def
        js_coalesce_def js_nullish_def)
qed

text \<open>
  C5. For every render of \<open>AlertDialogContent\<close>, whatever the props are (empty strings
  included), the content element never has both \<open>aria-label\<close> and \<open>aria-labelledby\<close> set;
  an explicit (truthy) label is rendered as \<open>aria-label\<close> and leaves \<open>aria-labelledby\<close>
  undefined.
\<close>

theorem C5_label_excludes_labelledby:
  "\<not> (isSet (attr (AlertDialogContent env ctx cr p ch r) ''aria-label'')
       \<and> isSet (attr (AlertDialogContent env ctx cr p ch r) ''aria-labelledby''))
   \<and> (truthy (getProp p ''aria-label'') \<longrightarrow>
        attr (AlertDialogContent env ctx cr p ch r) ''aria-label'' = getProp p ''aria-label''
        \<and> attr (AlertDialogContent env ctx cr p ch r) ''aria-labelledby'' = Undefined)"
  by (simp add: content_aria_labelledby content_aria_label js_or_def isSet_def js_nullish_def)

text \<open>
  Witness for C5: both \<open>aria-label\<close> and \<open>aria-labelledby\<close> supplied; the label wins.
\<close>

theorem C5_label_excludes_labelledby_witness:
  "truthy (getProp [''aria-label'' \<mapsto> Str ''Delete file'', ''aria-labelledby'' \<mapsto> Str ''other'']
      ''aria-label'')
   \<and> attr (AlertDialogContent (Some ''production'')
           \<lparr>descriptionId = ''radix-id-1'', titleId = ''radix-id-2''\<rparr> 0
           [''aria-label'' \<mapsto> Str ''Delete file'', ''aria-labelledby'' \<mapsto> Str ''other''] [] Null)
      ''aria-label'' = Str ''Delete file''
   \<and> attr (AlertDialogContent (Some ''production'')
           \<lparr>descriptionId = ''radix-id-1'', titleId = ''radix-id-2''\<rparr> 0
           [''aria-label'' \<mapsto> Str ''Delete file'', ''aria-labelledby'' \<mapsto> Str ''other''] [] Null)
      ''aria-labelledby'' = Undefined"
  using C5_label_excludes_labelledby [of "Some ''production''"
      "\<lparr>descriptionId = ''radix-id-1'', titleId = ''radix-id-2''\<rparr>" 0
      "[''aria-label'' \<mapsto> Str ''Delete file'', ''aria-labelledby'' \<mapsto> Str ''other'']" "[]" Null]
  by (simp add: getProp_def)

section \<open>The role of the content element\<close>

text \<open>
  C7, as stated, fails. The \<open>role\<close> attribute stands before the spread of the remaining
  props, so a \<open>role\<close> among them replaces it: with \<open>role="dialog"\<close> forwarded by the consumer
  the content element is a plain dialog.
\<close>

theorem C7_counterexample:
  "attr (AlertDialogContent (Some ''production'')
          \<lparr>descriptionId = ''radix-id-1'', titleId = ''radix-id-2''\<rparr> 0
          [''role'' \<mapsto> Str ''dialog''] [] Null) ''role'' = Str ''dialog''
   \<and> Str ''dialog'' \<noteq> Str ''alertdialog''"
  by (simp add: content_simps)

text \<open>
  C7, amended. For every render of \<open>AlertDialogContent\<close> whose props hold no \<open>role\<close>, the
  content element carries \<open>role="alertdialog"\<close>, regardless of the other props; a \<open>role\<close> the
  consumer supplies is forwarded in its place.
\<close>

theorem C7_content_role:
  "(p ''role'' = None \<longrightarrow>
      attr (AlertDialogContent env ctx cr p ch r) ''role'' = Str ''alertdialog'')
   \<and> (\<forall>v. p ''role'' = Some v \<longrightarrow>
      attr (AlertDialogContent env ctx cr p ch r) ''role'' = v)"
  by (simp add: content_simps)

text \<open>
  Witness for C7: other props are forwarded (a class name, an explicit label), no \<open>role\<close>.
\<close>

theorem C7_content_role_witness:
  "[''className'' \<mapsto> Str ''danger'', ''aria-label'' \<mapsto> Str ''Delete file''] ''role'' = None
   \<and> attr (AlertDialogContent (Some ''production'')
          \<lparr>descriptionId = ''radix-id-1'', titleId = ''radix-id-2''\<rparr> 0
          [''className'' \<mapsto> Str ''danger'', ''aria-label'' \<mapsto> Str ''Delete file''] [] Null)
        ''role'' = Str ''alertdialog''"
  using C7_content_role [where p = "[''className'' \<mapsto> Str ''danger'', ''aria-label'' \<mapsto> Str ''Delete file'']"
      and env = "Some ''production''"
      and ctx = "\<lparr>descriptionId = ''radix-id-1'', titleId = ''radix-id-2''\<rparr>"
      and cr = 0 and ch = "[]" and r = Null]
  by simp

section \<open>The build-mode gate\<close>

text \<open>
  C3, as stated, fails. The gate is \<open>process.env.NODE_ENV === 'development'\<close>: in a test
  build, which is not a production build, the sub-component is not mounted.
\<close>

theorem C3_counterexample:
  "Some ''test'' \<noteq> Some ''production''
   \<and> \<not> mounts ''AccessibilityDevWarnings''
         (AlertDialogContent (Some ''test'')
            \<lparr>descriptionId = ''radix-id-1'', titleId = ''radix-id-2''\<rparr> 0 Map.empty [] Null)"
  by (simp add: content_simps)

text \<open>
  C3, amended. \<open>AccessibilityDevWarnings\<close> is mounted inside \<open>AlertDialogContent\<close> exactly
  when \<open>NODE_ENV\<close> is \<open>development\<close>; in particular it is never mounted in a production
  build. (The sub-component is private to the module, so the consumer's children hold no
  instance of it.)
\<close>

theorem C3_dev_warnings_gate:
  assumes "\<not> list_ex (mounts ''AccessibilityDevWarnings'') ch"
  shows "mounts ''AccessibilityDevWarnings'' (AlertDialogContent env ctx cr p ch r)
           = (env = Some ''development'')
         \<and> \<not> mounts ''AccessibilityDevWarnings''
               (AlertDialogContent (Some ''production'') ctx cr p ch r)"
  using assms by (simp add: content_simps)

text \<open>Witness for C3: a development build, with a button as the only child.\<close>

theorem C3_dev_warnings_gate_witness:
  "\<not> list_ex (mounts ''AccessibilityDevWarnings'') [Element ''button'' Map.empty []]
   \<and> mounts ''AccessibilityDevWarnings''
        (AlertDialogContent (Some ''development'')
           \<lparr>descriptionId = ''radix-id-1'', titleId = ''radix-id-2''\<rparr> 0 Map.empty
           [Element ''button'' Map.empty []] Null)
   \<and> \<not> mounts ''AccessibilityDevWarnings''
        (AlertDialogContent (Some ''production'')
           \<lparr>descriptionId = ''radix-id-1'', titleId = ''radix-id-2''\<rparr> 0 Map.empty
           [Element ''button'' Map.empty []] Null)"
  using C3_dev_warnings_gate [where ch = "[Element ''button'' Map.empty []]"
      and env = "Some ''development''"
      and ctx = "\<lparr>descriptionId = ''radix-id-1'', titleId = ''radix-id-2''\<rparr>"
      and cr = 0 and p = Map.empty and r = Null]
  by simp

section \<open>Default focus on open\<close>

lemma content_onOpenAutoFocus:
  "attr (AlertDialogContent env ctx cr p ch r) ''onOpenAutoFocus'' =
     Fn (composeEventHandlers (getProp p ''onOpenAutoFocus'') (focusCancel cr))"
  by (simp add: content_simps)

lemma openAutoFocus_content:
  "openAutoFocus (AlertDialogContent env ctx cr p ch r) w =
     composeEventHandlers (getProp p ''onOpenAutoFocus'') (focusCancel cr)
       (w\<lparr>defaultPrevented := False\<rparr>)"
  by (simp add: openAutoFocus_def content_onOpenAutoFocus)

text \<open>
  C2. On an open transition the handler that \<open>AlertDialogContent\<close> registers first runs the
  caller's \<open>onOpenAutoFocus\<close> handler, if there is one, on the fresh event. If the caller's
  handler has prevented the default, nothing else happens. Otherwise, with a Cancel
  element \<open>el\<close> registered in the ref cell, the default is prevented and \<open>el\<close> is focused with
  \<open>preventScroll\<close> requested.
\<close>

theorem C2_focus_cancel_on_open:
  assumes "callerDone =
      (case getProp p ''onOpenAutoFocus'' of
         Fn h \<Rightarrow> h (w\<lparr>defaultPrevented := False\<rparr>)
       | _ \<Rightarrow> w\<lparr>defaultPrevented := False\<rparr>)"
    and "refCurrent callerDone cr = Some el"
  shows "openAutoFocus (AlertDialogContent env ctx cr p ch r) w =
      (if defaultPrevented callerDone then callerDone
       else callerDone\<lparr>defaultPrevented := True,
                        focusCalls := focusCalls callerDone @ [(el, True)]\<rparr>)"
  using assms
  by (simp add: openAutoFocus_content composeEventHandlers_def focusCancel_def
      preventDefault_def focus_def Let_def)

text \<open>
  Witness for C2: a Cancel element (handle 7) is registered in cell 0. Without a caller
  handler the open transition prevents the default and makes one focus call, on the Cancel
  element, with \<open>preventScroll\<close>. With a caller handler that calls \<open>preventDefault\<close> nothing
  is focused.
\<close>

theorem C2_focus_cancel_on_open_witness:
  "refCurrent \<lparr>defaultPrevented = False, refCurrent = [0 \<mapsto> 7], focusCalls = []\<rparr> 0 = Some 7
   \<and> openAutoFocus (AlertDialogContent (Some ''production'')
          \<lparr>descriptionId = ''radix-id-1'', titleId = ''radix-id-2''\<rparr> 0 Map.empty [] Null)
        \<lparr>defaultPrevented = False, refCurrent = [0 \<mapsto> 7], focusCalls = []\<rparr>
      = \<lparr>defaultPrevented = True, refCurrent = [0 \<mapsto> 7], focusCalls = [(7, True)]\<rparr>
   \<and> openAutoFocus (AlertDialogContent (Some ''production'')
          \<lparr>descriptionId = ''radix-id-1'', titleId = ''radix-id-2''\<rparr> 0
          [''onOpenAutoFocus'' \<mapsto> Fn preventDefault] [] Null)
        \<lparr>defaultPrevented = False, refCurrent = [0 \<mapsto> 7], focusCalls = []\<rparr>
      = \<lparr>defaultPrevented = True, refCurrent = [0 \<mapsto> 7], focusCalls = []\<rparr>"
  using C2_focus_cancel_on_open [where
      callerDone = "\<lparr>defaultPrevented = False, refCurrent = [0 \<mapsto> 7], focusCalls = []\<rparr>"
      and p = Map.empty
      and w = "\<lparr>defaultPrevented = False, refCurrent = [0 \<mapsto> 7], focusCalls = []\<rparr>"
      and cr = 0 and el = 7 and env = "Some ''production''"
      and ctx = "\<lparr>descriptionId = ''radix-id-1'', titleId = ''radix-id-2''\<rparr>"
      and ch = "[]" and r = Null]
    C2_focus_cancel_on_open [where
      callerDone = "\<lparr>defaultPrevented = True, refCurrent = [0 \<mapsto> 7], focusCalls = []\<rparr>"
      and p = "[''onOpenAutoFocus'' \<mapsto> Fn preventDefault]"
      and w = "\<lparr>defaultPrevented = False, refCurrent = [0 \<mapsto> 7], focusCalls = []\<rparr>"
      and cr = 0 and el = 7 and env = "Some ''production''"
      and ctx = "\<lparr>descriptionId = ''radix-id-1'', titleId = ''radix-id-2''\<rparr>"
      and ch = "[]" and r = Null]
  by (simp add: getProp_def preventDefault_def)

text \<open>
  C4, as stated, fails. With no Cancel element registered and no caller handler, the open
  transition leaves the event with its default prevented: the primitive's default
  autofocus is suppressed, although nothing has been focused.
\<close>

theorem C4_counterexample:
  "refCurrent \<lparr>defaultPrevented = False, refCurrent = Map.empty, focusCalls = []\<rparr> 0 = None
   \<and> openAutoFocus (AlertDialogContent (Some ''production'')
          \<lparr>descriptionId = ''radix-id-1'', titleId = ''radix-id-2''\<rparr> 0 Map.empty [] Null)
        \<lparr>defaultPrevented = False, refCurrent = Map.empty, focusCalls = []\<rparr>
      = \<lparr>defaultPrevented = True, refCurrent = Map.empty, focusCalls = []\<rparr>"
  by (simp add: openAutoFocus_content composeEventHandlers_def focusCancel_def
      preventDefault_def getProp_def Let_def)

text \<open>
  C4, amended. On an open transition in which no Cancel control has registered (the ref
  cell is empty), the registered handler makes no focus call of its own, but, unless the
  caller's handler has already prevented the default, it still prevents the primitive's
  default autofocus.
\<close>

theorem C4_no_cancel_on_open:
  assumes "callerDone =
      (case getProp p ''onOpenAutoFocus'' of
         Fn h \<Rightarrow> h (w\<lparr>defaultPrevented := False\<rparr>)
       | _ \<Rightarrow> w\<lparr>defaultPrevented := False\<rparr>)"
    and "refCurrent callerDone cr = None"
  shows "openAutoFocus (AlertDialogContent env ctx cr p ch r) w =
           callerDone\<lparr>defaultPrevented := True\<rparr>
         \<and> focusCalls (openAutoFocus (AlertDialogContent env ctx cr p ch r) w) =
           focusCalls callerDone
         \<and> defaultPrevented (openAutoFocus (AlertDialogContent env ctx cr p ch r) w)"
  using assms
  by (simp add: openAutoFocus_content composeEventHandlers_def focusCancel_def
      preventDefault_def Let_def)

text \<open>Witness for C4: no Cancel element, no caller handler.\<close>

theorem C4_no_cancel_on_open_witness:
  "refCurrent \<lparr>defaultPrevented = False, refCurrent = Map.empty, focusCalls = [(3, False)]\<rparr> 0
     = None
   \<and> focusCalls (openAutoFocus (AlertDialogContent (Some ''production'')
          \<lparr>descriptionId = ''radix-id-1'', titleId = ''radix-id-2''\<rparr> 0 Map.empty [] Null)
        \<lparr>defaultPrevented = False, refCurrent = Map.empty, focusCalls = [(3, False)]\<rparr>)
      = [(3, False)]
   \<and> defaultPrevented (openAutoFocus (AlertDialogContent (Some ''production'')
          \<lparr>descriptionId = ''radix-id-1'', titleId = ''radix-id-2''\<rparr> 0 Map.empty [] Null)
        \<lparr>defaultPrevented = False, refCurrent = Map.empty, focusCalls = [(3, False)]\<rparr>)"
  using C4_no_cancel_on_open [where
      callerDone = "\<lparr>defaultPrevented = False, refCurrent = Map.empty, focusCalls = [(3, False)]\<rparr>"
      and p = Map.empty
      and w = "\<lparr>defaultPrevented = False, refCurrent = Map.empty, focusCalls = [(3, False)]\<rparr>"
      and cr = 0 and env = "Some ''production''"
      and ctx = "\<lparr>descriptionId = ''radix-id-1'', titleId = ''radix-id-2''\<rparr>"
      and ch = "[]" and r = Null]
  by (simp add: getProp_def)

section \<open>Title and description\<close>

lemmas leaf_simps = AlertDialogTitle_def AlertDialogDescription_def Let_def getProp_def
  map_add_def restrict_map_def

lemma title_id:
  "attr (AlertDialogTitle ctx p ch r) ''id'' =
     (case p ''id'' of None \<Rightarrow> Str (titleId ctx) | Some v \<Rightarrow> v)"
  by (simp add: leaf_simps split: option.splits)

lemma description_id:
  "attr (AlertDialogDescription ctx p ch r) ''id'' =
     (case p ''id'' of None \<Rightarrow> Str (descriptionId ctx) | Some v \<Rightarrow> v)"
  by (simp add: leaf_simps split: option.splits)

lemma title_as:
  "attr (AlertDialogTitle ctx p ch r) ''as'' =
     (if getProp p ''as'' = Undefined then Str ''h2'' else getProp p ''as'')"
  by (simp add: leaf_simps TITLE_DEFAULT_TAG_def split: option.splits jsval.splits)

lemma description_as:
  "attr (AlertDialogDescription ctx p ch r) ''as'' =
     (if getProp p ''as'' = Undefined then Str ''p'' else getProp p ''as'')"
  by (simp add: leaf_simps DESCRIPTION_DEFAULT_TAG_def split: option.splits jsval.splits)

lemma title_passes:
  "k \<noteq> ''as'' \<Longrightarrow> k \<noteq> ''ref'' \<Longrightarrow> k \<noteq> ''id'' \<Longrightarrow>
     attr (AlertDialogTitle ctx p ch r) k = getProp p k"
  by (simp add: leaf_simps split: option.splits)

lemma description_passes:
  "k \<noteq> ''as'' \<Longrightarrow> k \<noteq> ''ref'' \<Longrightarrow> k \<noteq> ''id'' \<Longrightarrow>
     attr (AlertDialogDescription ctx p ch r) k = getProp p k"
  by (simp add: leaf_simps split: option.splits)

lemma leaf_children:
  "childrenOf (AlertDialogTitle ctx p ch r) = ch"
  "childrenOf (AlertDialogDescription ctx p ch r) = ch"
  by (simp_all add: leaf_simps)

text \<open>
  C9, as stated, fails. The props of the consumer are spread after the generated \<open>id\<close>, so a
  title rendered with \<open>id="my-title"\<close> carries that id and not the shared \<open>titleId\<close>.
\<close>

theorem C9_counterexample:
  "attr (AlertDialogTitle \<lparr>descriptionId = ''radix-id-1'', titleId = ''radix-id-2''\<rparr>
          [''id'' \<mapsto> Str ''my-title''] [] Null) ''id'' = Str ''my-title''
   \<and> Str ''my-title'' \<noteq> Str (titleId \<lparr>descriptionId = ''radix-id-1'', titleId = ''radix-id-2''\<rparr>)"
  by (simp add: title_id)

text \<open>
  C9, amended. For every render of \<open>AlertDialogTitle\<close> and \<open>AlertDialogDescription\<close> the tag
  defaults to \<open>h2\<close> for the title and \<open>p\<close> for the description and is otherwise the \<open>as\<close> prop,
  and all other props and the children are passed through. When the props hold no \<open>id\<close>,
  the rendered element's \<open>id\<close> is the shared \<open>titleId\<close> (respectively \<open>descriptionId\<close>) of the
  context; consequently, when moreover \<open>AlertDialogContent\<close> has no \<open>aria-label\<close>,
  \<open>aria-labelledby\<close> or \<open>aria-describedby\<close> override, its \<open>aria-labelledby\<close> equals the title's
  \<open>id\<close> and its \<open>aria-describedby\<close> the description's.
\<close>

theorem C9_title_description:
  "attr (AlertDialogTitle ctx tp tch tr) ''as'' =
        (if getProp tp ''as'' = Undefined then Str ''h2'' else getProp tp ''as'')
    \<and> attr (AlertDialogDescription ctx dp dch dr) ''as'' =
        (if getProp dp ''as'' = Undefined then Str ''p'' else getProp dp ''as'')
    \<and> (\<forall>k. k \<noteq> ''as'' \<and> k \<noteq> ''ref'' \<and> k \<noteq> ''id'' \<longrightarrow>
          attr (AlertDialogTitle ctx tp tch tr) k = getProp tp k
          \<and> attr (AlertDialogDescription ctx dp dch dr) k = getProp dp k)
    \<and> childrenOf (AlertDialogTitle ctx tp tch tr) = tch
    \<and> childrenOf (AlertDialogDescription ctx dp dch dr) = dch
    \<and> (tp ''id'' = None \<longrightarrow>
          attr (AlertDialogTitle ctx tp tch tr) ''id'' = Str (titleId ctx))
    \<and> (dp ''id'' = None \<longrightarrow>
          attr (AlertDialogDescription ctx dp dch dr) ''id'' = Str (descriptionId ctx))
    \<and> (getProp cp ''aria-label'' = Undefined \<and> getProp cp ''aria-labelledby'' = Undefined
        \<and> getProp cp ''aria-describedby'' = Undefined \<longrightarrow>
          (tp ''id'' = None \<longrightarrow>
             attr (AlertDialogContent env ctx cr cp cch r) ''aria-labelledby'' =
               attr (AlertDialogTitle ctx tp tch tr) ''id'')
          \<and> (dp ''id'' = None \<longrightarrow>
             attr (AlertDialogContent env ctx cr cp cch r) ''aria-describedby'' =
               attr (AlertDialogDescription ctx dp dch dr) ''id''))"
proof -
  have link: "attr (AlertDialogContent env ctx cr cp cch r) ''aria-labelledby'' = Str (titleId ctx)
      \<and> attr (AlertDialogContent env ctx cr cp cch r) ''aria-describedby'' = Str (descriptionId ctx)"
    if "getProp cp ''aria-label'' = Undefined" "getProp cp ''aria-labelledby'' = Undefined"
      "getProp cp ''aria-describedby'' = Undefined"
    using that by (simp add: content_aria_labelledby content_aria_describedby js_or_def)
  show ?thesis
    using link
    by (simp add: title_id description_id title_as description_as title_passes
        description_passes leaf_children)
qed

text \<open>
  Witness for C9: a title with a class name, a description without props, a content element
  without overrides.
\<close>

theorem C9_title_description_witness:
  "[''className'' \<mapsto> Str ''title''] ''id'' = None
   \<and> (Map.empty :: props) ''id'' = None
   \<and> getProp Map.empty ''aria-label'' = Undefined
   \<and> getProp Map.empty ''aria-labelledby'' = Undefined
   \<and> getProp Map.empty ''aria-describedby'' = Undefined
   \<and> attr (AlertDialogTitle \<lparr>descriptionId = ''radix-id-1'', titleId = ''radix-id-2''\<rparr>
        [''className'' \<mapsto> Str ''title''] [] Null) ''id'' = Str ''radix-id-2''
   \<and> attr (AlertDialogTitle \<lparr>descriptionId = ''radix-id-1'', titleId = ''radix-id-2''\<rparr>
        [''className'' \<mapsto> Str ''title''] [] Null) ''as'' = Str ''h2''
   \<and> attr (AlertDialogTitle \<lparr>descriptionId = ''radix-id-1'', titleId = ''radix-id-2''\<rparr>
        [''className'' \<mapsto> Str ''title''] [] Null) ''className'' = Str ''title''
   \<and> attr (AlertDialogDescription \<lparr>descriptionId = ''radix-id-1'', titleId = ''radix-id-2''\<rparr>
        Map.empty [] Null) ''as'' = Str ''p''
   \<and> attr (AlertDialogContent (Some ''production'')
          \<lparr>descriptionId = ''radix-id-1'', titleId = ''radix-id-2''\<rparr> 0 Map.empty [] Null)
        ''aria-labelledby'' = Str ''radix-id-2''
   \<and> attr (AlertDialogContent (Some ''production'')
          \<lparr>descriptionId = ''radix-id-1'', titleId = ''radix-id-2''\<rparr> 0 Map.empty [] Null)
        ''aria-describedby'' = Str ''radix-id-1''"
proof -
  have h: "[''className'' \<mapsto> Str ''title''] ''id'' = None" "(Map.empty :: props) ''id'' = None"
    by simp_all
  have g: "getProp Map.empty ''aria-label'' = Undefined"
    "getProp Map.empty ''aria-labelledby'' = Undefined"
    "getProp Map.empty ''aria-describedby'' = Undefined"
    "getProp [''className'' \<mapsto> Str ''title''] ''as'' = Undefined"
    "getProp Map.empty ''as'' = Undefined"
    "getProp [''className'' \<mapsto> Str ''title''] ''className'' = Str ''title''"
    by (simp_all add: getProp_def)
  from C9_title_description [where tp = "[''className'' \<mapsto> Str ''title'']" and dp = Map.empty
      and ctx = "\<lparr>descriptionId = ''radix-id-1'', titleId = ''radix-id-2''\<rparr>"
      and cp = Map.empty and env = "Some ''production''" and cr = 0 and cch = "[]" and r = Null
      and tch = "[]" and tr = Null and dch = "[]" and dr = Null]
  show ?thesis
    using h g by simp
qed

section \<open>The dev warnings\<close>

lemmas warning_texts = LABEL_WARNING_def DESC_WARNING_def CONTENT_NAME_def TITLE_NAME_def
  DESCRIPTION_NAME_def nl_def

lemma label_warning_mentions:
  "mentions ''label'' LABEL_WARNING"
  "\<not> mentions ''description'' LABEL_WARNING"
  by (simp_all add: warning_texts)

lemma desc_warning_mentions:
  "mentions ''description'' DESC_WARNING"
  "\<not> mentions ''label'' DESC_WARNING"
  by (simp_all add: warning_texts)

lemma mentions_sublist: "mentions word s = sublist word s"
  by (induction s) (simp_all add: sublist_Cons_right)

lemma andGetElementById_resolvesTo: "andGetElementById doc x = resolvesTo doc x"
  by (cases x) (auto simp add: getElementById_def)

lemma dev_warnings_emitted:
  "AccessibilityDevWarnings l lb db ctx doc =
     (if truthyStr l \<or> resolvesTo doc lb \<or> resolvesTo doc (Some (titleId ctx))
      then [] else [LABEL_WARNING])
     @ (if resolvesTo doc db \<or> resolvesTo doc (Some (descriptionId ctx))
        then [] else [DESC_WARNING])"
  by (simp add: AccessibilityDevWarnings_def Let_def andGetElementById_resolvesTo
      del: resolvesTo.simps andGetElementById.simps)

text \<open>
  C6. On each run of the effect of \<open>AccessibilityDevWarnings\<close> (on mount in particular): the
  number of warnings mentioning "label" is one when no accessible name resolves (no
  non-empty \<open>ariaLabel\<close>, no \<open>ariaLabelledBy\<close> id and no title id resolving to a rendered
  element) and none otherwise; the number of warnings mentioning "description" is one when
  no description resolves (neither \<open>ariaDescribedBy\<close> nor the description id resolves to a
  rendered element) and none otherwise; when both resolve nothing is emitted. Only these
  two warnings are ever emitted, and the effect has no failing branch: it always returns.
\<close>

theorem C6_dev_warnings:
  "length (filter (mentions ''label'') (AccessibilityDevWarnings l lb db ctx doc)) =
     (if truthyStr l \<or> resolvesTo doc lb \<or> resolvesTo doc (Some (titleId ctx)) then 0 else 1)
   \<and> length (filter (mentions ''description'') (AccessibilityDevWarnings l lb db ctx doc)) =
     (if resolvesTo doc db \<or> resolvesTo doc (Some (descriptionId ctx)) then 0 else 1)
   \<and> ((truthyStr l \<or> resolvesTo doc lb \<or> resolvesTo doc (Some (titleId ctx)))
       \<and> (resolvesTo doc db \<or> resolvesTo doc (Some (descriptionId ctx)))
       \<longrightarrow> AccessibilityDevWarnings l lb db ctx doc = [])
   \<and> set (AccessibilityDevWarnings l lb db ctx doc) \<subseteq> {LABEL_WARNING, DESC_WARNING}"
  by (simp add: dev_warnings_emitted label_warning_mentions desc_warning_mentions
      del: resolvesTo.simps)

text \<open>
  Witness for C6: with the title and the description rendered nothing is emitted; with
  only the description rendered and an \<open>aria-labelledby\<close> that resolves to nothing, exactly
  the label warning is.
\<close>

theorem C6_dev_warnings_witness:
  "resolvesTo [(''radix-id-2'', 4), (''radix-id-1'', 5)] (Some ''radix-id-2'')
   \<and> resolvesTo [(''radix-id-2'', 4), (''radix-id-1'', 5)] (Some ''radix-id-1'')
   \<and> AccessibilityDevWarnings None None None
        \<lparr>descriptionId = ''radix-id-1'', titleId = ''radix-id-2''\<rparr>
        [(''radix-id-2'', 4), (''radix-id-1'', 5)] = []
   \<and> length (filter (mentions ''label'')
        (AccessibilityDevWarnings None (Some ''missing'') None
           \<lparr>descriptionId = ''radix-id-1'', titleId = ''radix-id-2''\<rparr>
           [(''radix-id-1'', 5)])) = 1
   \<and> length (filter (mentions ''description'')
        (AccessibilityDevWarnings None (Some ''missing'') None
           \<lparr>descriptionId = ''radix-id-1'', titleId = ''radix-id-2''\<rparr>
           [(''radix-id-1'', 5)])) = 0"
  using C6_dev_warnings [where l = None and lb = None and db = None
      and ctx = "\<lparr>descriptionId = ''radix-id-1'', titleId = ''radix-id-2''\<rparr>"
      and doc = "[(''radix-id-2'', 4), (''radix-id-1'', 5)]"]
    C6_dev_warnings [where l = None and lb = "Some ''missing''" and db = None
      and ctx = "\<lparr>descriptionId = ''radix-id-1'', titleId = ''radix-id-2''\<rparr>"
      and doc = "[(''radix-id-1'', 5)]"]
  by (simp add: getElementById_def)

section \<open>A consumer id on the title or the description\<close>




section \<open>The identifiers of the root\<close>

declare decimal.simps [simp del]

lemma undecimal_decimal: "undecimal (decimal n) = n"
proof (induction n rule: decimal.induct)
  case (1 n)
  show ?case
  proof (cases "n < 10")
    case True
    then show ?thesis
      by (subst decimal.simps) (simp add: undecimal_def)
  next
    case False
    have d: "n mod 10 < 10" by simp
    have "undecimal (decimal n) = 10 * undecimal (decimal (n div 10)) + n mod 10"
      using False by (subst decimal.simps) (simp add: undecimal_def)
    with 1 False show ?thesis by simp
  qed
qed

lemma decimal_inj: "decimal m = decimal n \<Longrightarrow> m = n"
  by (metis undecimal_decimal)

lemma useId_mount: "useId None count = (''radix-id-'' @ decimal (Suc count), Some (''radix-id-'' @ decimal (Suc count)), Suc count)"
  by (simp add: useId_def Let_def)

lemma useId_rerender: "useId (Some i) count = (i, Some i, count)"
  by (simp add: useId_def)

lemma AlertDialog_mount:
  "AlertDialog (None, None) count p children =
     (Element ''AlertDialogProvider''
        [''descriptionId'' \<mapsto> Str (''radix-id-'' @ decimal (Suc count)),
         ''titleId'' \<mapsto> Str (''radix-id-'' @ decimal (Suc (Suc count)))]
        [Element ''DialogPrimitive.Root'' p children],
      (Some (''radix-id-'' @ decimal (Suc count)), Some (''radix-id-'' @ decimal (Suc (Suc count)))),
      Suc (Suc count))"
  by (simp add: AlertDialog_def useId_mount)

lemma AlertDialog_rerender:
  "AlertDialog (Some d, Some t) count p children =
     (Element ''AlertDialogProvider'' [''descriptionId'' \<mapsto> Str d, ''titleId'' \<mapsto> Str t]
        [Element ''DialogPrimitive.Root'' p children],
      (Some d, Some t), count)"
  by (simp add: AlertDialog_def useId_rerender)

text \<open>
  C8. When an \<open>AlertDialog\<close> mounts (both hook cells empty), the \<open>titleId\<close> and
  \<open>descriptionId\<close> it provides are non-empty strings, distinct from one another, and every
  later render of the same instance (with the hook cells the mount left, whatever the
  counter and the props have become) provides the same two identifiers and leaves the cells
  as they are.
\<close>

theorem C8_root_ids:
  assumes "AlertDialog (None, None) count p children = (root, hooks, count')"
  shows "\<exists>tId dId. attr root ''titleId'' = Str tId \<and> attr root ''descriptionId'' = Str dId
           \<and> tId \<noteq> [] \<and> dId \<noteq> [] \<and> tId \<noteq> dId
           \<and> (\<forall>count2 p2 children2. \<exists>root2 count2'.
                 AlertDialog hooks count2 p2 children2 = (root2, hooks, count2')
                 \<and> attr root2 ''titleId'' = Str tId
                 \<and> attr root2 ''descriptionId'' = Str dId)"
proof -
  let ?d = "''radix-id-'' @ decimal (Suc count)"
  let ?t = "''radix-id-'' @ decimal (Suc (Suc count))"
  from assms have root: "root = Element ''AlertDialogProvider''
        [''descriptionId'' \<mapsto> Str ?d, ''titleId'' \<mapsto> Str ?t]
        [Element ''DialogPrimitive.Root'' p children]"
    and hooks: "hooks = (Some ?d, Some ?t)"
    unfolding AlertDialog_mount by auto
  have distinct: "?t \<noteq> ?d"
  proof
    assume "?t = ?d"
    then have "decimal (Suc (Suc count)) = decimal (Suc count)" by simp
    then have "Suc (Suc count) = Suc count" by (rule decimal_inj)
    then show False by simp
  qed
  have ids: "attr root ''titleId'' = Str ?t" "attr root ''descriptionId'' = Str ?d"
    by (simp_all add: root getProp_def)
  have stable: "\<exists>root2 count2'.
        AlertDialog hooks count2 p2 children2 = (root2, hooks, count2')
        \<and> attr root2 ''titleId'' = Str ?t \<and> attr root2 ''descriptionId'' = Str ?d"
    for count2 p2 children2
    by (simp add: hooks AlertDialog_rerender getProp_def)
  from ids distinct stable show ?thesis
    by (intro exI [of _ ?t] exI [of _ ?d]) simp
qed

text \<open>
  Witness for C8: the first dialog mounted on a page gets \<open>radix-id-1\<close> and \<open>radix-id-2\<close>.
\<close>

theorem C8_root_ids_witness:
  "attr (fst (AlertDialog (None, None) 0 Map.empty [])) ''descriptionId'' = Str ''radix-id-1''
   \<and> attr (fst (AlertDialog (None, None) 0 Map.empty [])) ''titleId'' = Str ''radix-id-2''
   \<and> (\<exists>tId dId. attr (fst (AlertDialog (None, None) 0 Map.empty [])) ''titleId'' = Str tId
         \<and> attr (fst (AlertDialog (None, None) 0 Map.empty [])) ''descriptionId'' = Str dId
         \<and> tId \<noteq> [] \<and> dId \<noteq> [] \<and> tId \<noteq> dId)"
proof -
  have m: "AlertDialog (None, None) 0 Map.empty [] =
      (fst (AlertDialog (None, None) 0 Map.empty []),
       fst (snd (AlertDialog (None, None) 0 Map.empty [])),
       snd (snd (AlertDialog (None, None) 0 Map.empty [])))"
    by simp
  have d1: "decimal (Suc 0) = ''1''" "decimal (Suc (Suc 0)) = ''2''"
    by code_simp+
  from C8_root_ids [OF m] d1 show ?thesis
    by (auto simp add: AlertDialog_mount getProp_def)
qed

end
